theory Spec2Isabelle
  imports Main "HOL-Library.Sublist"
begin

section \<open>Notes page: values, effects and state\<close>

text \<open>
  The notes page (\<^verbatim>\<open>src/renderer/src/pages/notes/NotesPage.tsx\<close>) is a React component.
  Its callbacks read values captured at render time (\<^verbatim>\<open>activeFilePath\<close>,
  \<^verbatim>\<open>currentContent\<close>, \<^verbatim>\<open>notesPath\<close>, \<^verbatim>\<open>sortType\<close>), mutate refs
  (\<^verbatim>\<open>isSyncingTreeRef\<close>, \<^verbatim>\<open>pendingOperationsRef\<close>, \<^verbatim>\<open>lastContentRef\<close>,
  \<^verbatim>\<open>lastFilePathRef\<close>), dispatch to the store and call services that may reject.
  The captured values are a record \<open>render_env\<close>, the refs and the store a record
  \<open>page_state\<close> that every callback takes and returns, and every call that leaves the
  component is appended to the \<open>trace\<close> of the state in program order. A service that
  may reject returns \<open>error + 'a\<close>; what it answers is given by a record \<open>services\<close>.

  A JavaScript string is a \<open>string\<close>; a value of type \<^verbatim>\<open>string | undefined\<close> is a
  \<open>string option\<close>, which is falsy when it is \<^verbatim>\<open>undefined\<close> or the empty string.
\<close>

definition truthy :: "string option \<Rightarrow> bool" where
  "truthy v = (case v of None \<Rightarrow> False | Some s \<Rightarrow> s \<noteq> [])"

text \<open>\<^verbatim>\<open>a || b\<close> on two values of type \<^verbatim>\<open>string | undefined\<close>.\<close>

definition js_or :: "string option \<Rightarrow> string option \<Rightarrow> string option" where
  "js_or a b = (if truthy a then a else b)"

text \<open>
  \<^verbatim>\<open>String.prototype.trim\<close> removes white space and line terminators from both ends.
  Of these, the code units below 256 are tab, line feed, vertical tab, form feed,
  carriage return, space and no-break space.
\<close>

definition isWhiteSpace :: "char \<Rightarrow> bool" where
  "isWhiteSpace c =
     (c \<in> set [CHR 0x09, CHR 0x0A, CHR 0x0B, CHR 0x0C, CHR 0x0D, CHR 0x20, CHR 0xA0])"

definition trim :: "string \<Rightarrow> string" where
  "trim s = rev (dropWhile isWhiteSpace (rev (dropWhile isWhiteSpace s)))"

text \<open>
  A JavaScript \<^verbatim>\<open>Set<string>\<close> keeps its elements in insertion order without duplicates:
  a list, with \<^verbatim>\<open>add\<close> appending an element that is not there yet and \<^verbatim>\<open>delete\<close>
  removing it.
\<close>

definition set_add :: "string \<Rightarrow> string list \<Rightarrow> string list" where
  "set_add x xs = (if x \<in> set xs then xs else xs @ [x])"

definition set_delete :: "string \<Rightarrow> string list \<Rightarrow> string list" where
  "set_delete x xs = removeAll x xs"

type_synonym NotesSortType = string

datatype NotesNodeType = FileNode | FolderNode

datatype NotesTreeNode =
  NotesTreeNode (node_id: string) (node_name: string) (node_type: NotesNodeType)
    (externalPath: string) (children: "NotesTreeNode list option")

record FileChangeEvent =
  eventType :: string
  filePath :: string

datatype error = Error string

datatype effect =
    LogDebug string
  | LogError string
  | DispatchSetActiveFilePath "string option"
  | SetIsSyncingTree bool
  | InitWorkSpace string NotesSortType
  | InvalidateFileContent string
  | FileWrite string string
  | GetNotesTree
  | RenameNode string string
  | SortAllLevels NotesSortType
  | ToastInfo string string

text \<open>What the services outside the component answer: \<open>None\<close> or \<open>Inr\<close> when the promise
  resolves, the error when it rejects.\<close>

record services =
  initWorkSpace_outcome :: "string \<Rightarrow> NotesSortType \<Rightarrow> error option"
  file_write_outcome :: "string \<Rightarrow> string \<Rightarrow> error option"
  startFileWatcher_outcome :: "string \<Rightarrow> error option"
  getNotesTree_outcome :: "error + NotesTreeNode list"
  renameNode_outcome :: "string \<Rightarrow> string \<Rightarrow> error + NotesTreeNode"
  sortAllLevels_outcome :: "NotesSortType \<Rightarrow> error option"

record render_env =
  notesPath :: "string option"
  sortType :: NotesSortType
  activeFilePath :: "string option"
  currentContent :: string
  notesTree :: "NotesTreeNode list"

record page_state =
  store_activeFilePath :: "string option"
  isSyncingTree :: bool
  pendingOperations :: "string list"
  lastContent :: string
  lastFilePath :: "string option"
  debouncedSave_timer :: "(string \<times> string option \<times> nat) option"
  trace :: "effect list"

definition emit :: "effect \<Rightarrow> page_state \<Rightarrow> page_state" where
  "emit e s = s\<lparr>trace := trace s @ [e]\<rparr>"

definition outcome :: "error option \<Rightarrow> error + unit" where
  "outcome r = (case r of Some e \<Rightarrow> Inl e | None \<Rightarrow> Inr ())"

definition dispatch_setActiveFilePath :: "string option \<Rightarrow> page_state \<Rightarrow> page_state" where
  "dispatch_setActiveFilePath p s =
     emit (DispatchSetActiveFilePath p) (s\<lparr>store_activeFilePath := p\<rparr>)"

definition set_isSyncingTree :: "bool \<Rightarrow> page_state \<Rightarrow> page_state" where
  "set_isSyncingTree b s = emit (SetIsSyncingTree b) (s\<lparr>isSyncingTree := b\<rparr>)"

definition initWorkSpace ::
  "services \<Rightarrow> string \<Rightarrow> NotesSortType \<Rightarrow> page_state \<Rightarrow> (error + unit) \<times> page_state" where
  "initWorkSpace sv p st s = (outcome (initWorkSpace_outcome sv p st), emit (InitWorkSpace p st) s)"

definition file_write ::
  "services \<Rightarrow> string \<Rightarrow> string \<Rightarrow> page_state \<Rightarrow> (error + unit) \<times> page_state" where
  "file_write sv p content s = (outcome (file_write_outcome sv p content), emit (FileWrite p content) s)"

definition getNotesTree ::
  "services \<Rightarrow> page_state \<Rightarrow> (error + NotesTreeNode list) \<times> page_state" where
  "getNotesTree sv s = (getNotesTree_outcome sv, emit GetNotesTree s)"

definition renameNode ::
  "services \<Rightarrow> string \<Rightarrow> string \<Rightarrow> page_state \<Rightarrow> (error + NotesTreeNode) \<times> page_state" where
  "renameNode sv nodeId newName s = (renameNode_outcome sv nodeId newName, emit (RenameNode nodeId newName) s)"

definition sortAllLevels ::
  "services \<Rightarrow> NotesSortType \<Rightarrow> page_state \<Rightarrow> (error + unit) \<times> page_state" where
  "sortAllLevels sv st s = (outcome (sortAllLevels_outcome sv st), emit (SortAllLevels st) s)"


section \<open>The pending-operation guard\<close>

definition addOperation :: "string \<Rightarrow> page_state \<Rightarrow> page_state" where
  "addOperation operationId s =
     emit (LogDebug ''Operation started:'')
       (s\<lparr>pendingOperations := set_add operationId (pendingOperations s)\<rparr>)"

definition removeOperation :: "string \<Rightarrow> page_state \<Rightarrow> page_state" where
  "removeOperation operationId s =
     emit (LogDebug ''Operation completed:'')
       (s\<lparr>pendingOperations := set_delete operationId (pendingOperations s)\<rparr>)"

definition hasPendingOperations :: "page_state \<Rightarrow> bool" where
  "hasPendingOperations s = (length (pendingOperations s) > 0)"

text \<open>\<^verbatim>\<open>try { return await operation() } finally { removeOperation(operationId) }\<close>:
  the result of the operation, value or error, is the result of the call.\<close>

definition withOperation ::
  "string \<Rightarrow> (page_state \<Rightarrow> (error + 'a) \<times> page_state) \<Rightarrow> page_state \<Rightarrow> (error + 'a) \<times> page_state" where
  "withOperation operationId operation s =
     (let s1 = addOperation operationId s;
          r = operation s1
      in (fst r, removeOperation operationId (snd r)))"


section \<open>Looking a node up in the tree\<close>

function (sequential) findNodeById :: "NotesTreeNode list \<Rightarrow> string \<Rightarrow> NotesTreeNode option" where
  "findNodeById [] nodeId = None"
| "findNodeById (node # rest) nodeId =
     (if node_id node = nodeId then Some node
      else (case children node of
              None \<Rightarrow> findNodeById rest nodeId
            | Some cs \<Rightarrow>
                (case findNodeById cs nodeId of
                   Some found \<Rightarrow> Some found
                 | None \<Rightarrow> findNodeById rest nodeId)))"
  by pat_completeness auto
termination
proof (relation "measure (\<lambda>(tree, nodeId). size_list size tree)")
  show "wf (measure (\<lambda>(tree :: NotesTreeNode list, nodeId :: string). size_list size tree))"
    by simp
next
  fix node :: NotesTreeNode and rest :: "NotesTreeNode list" and nodeId :: string and cs
  assume "children node = Some cs"
  then have "size_list size cs < size node" by (cases node) simp
  then show "((cs, nodeId), (node # rest, nodeId)) \<in> measure (\<lambda>(tree, nodeId). size_list size tree)"
    by simp
qed simp_all

text \<open>The nodes of a forest in depth-first preorder: a node, then its children, then its
  later siblings.\<close>

function (sequential) preorder :: "NotesTreeNode list \<Rightarrow> NotesTreeNode list" where
  "preorder [] = []"
| "preorder (node # rest) =
     node # (case children node of None \<Rightarrow> [] | Some cs \<Rightarrow> preorder cs) @ preorder rest"
  by pat_completeness auto
termination
proof (relation "measure (size_list size)")
  show "wf (measure (size_list size :: NotesTreeNode list \<Rightarrow> nat))" by simp
next
  fix node :: NotesTreeNode and rest :: "NotesTreeNode list" and cs
  assume "children node = Some cs"
  then have "size_list size cs < size node" by (cases node) simp
  then show "(cs, node # rest) \<in> measure (size_list size)" by simp
qed simp_all


section \<open>Saving\<close>

definition invalidateFileContent :: "string \<Rightarrow> page_state \<Rightarrow> page_state" where
  "invalidateFileContent p s = emit (InvalidateFileContent p) s"

definition saveCurrentNote ::
  "services \<Rightarrow> render_env \<Rightarrow> string \<Rightarrow> string option \<Rightarrow> page_state \<Rightarrow> page_state" where
  "saveCurrentNote sv env content fp s =
     (let targetPath = js_or fp (activeFilePath env)
      in if \<not> truthy targetPath \<or> trim content = trim (currentContent env) then s
         else (case targetPath of
                 None \<Rightarrow> s
               | Some tp \<Rightarrow>
                   (case file_write sv tp content s of
                      (Inl e, s1) \<Rightarrow> emit (LogError ''Failed to save note:'') s1
                    | (Inr u, s1) \<Rightarrow> invalidateFileContent tp s1)))"

text \<open>
  \<^verbatim>\<open>debounce(f, 800)\<close> of lodash with its default options calls \<open>f\<close> once, with the
  arguments of the last call, when 800 ms have passed since that last call. The timer is a
  field of the state: the arguments and the time at which it is due, in milliseconds.
\<close>

definition debouncedSave :: "nat \<Rightarrow> string \<Rightarrow> string option \<Rightarrow> page_state \<Rightarrow> page_state" where
  "debouncedSave now content fp s = s\<lparr>debouncedSave_timer := Some (content, fp, now + 800)\<rparr>"

definition debouncedSave_elapse ::
  "services \<Rightarrow> render_env \<Rightarrow> nat \<Rightarrow> page_state \<Rightarrow> page_state" where
  "debouncedSave_elapse sv env now s =
     (case debouncedSave_timer s of
        None \<Rightarrow> s
      | Some (content, fp, due) \<Rightarrow>
          if now < due then s
          else saveCurrentNote sv env content fp (s\<lparr>debouncedSave_timer := None\<rparr>))"

definition handleMarkdownChange ::
  "render_env \<Rightarrow> nat \<Rightarrow> string \<Rightarrow> page_state \<Rightarrow> page_state" where
  "handleMarkdownChange env now newMarkdown s =
     debouncedSave now newMarkdown (activeFilePath env)
       (s\<lparr>lastContent := newMarkdown, lastFilePath := activeFilePath env\<rparr>)"


section \<open>The file watcher\<close>

definition isStructuralEvent :: "string \<Rightarrow> bool" where
  "isStructuralEvent et = (et \<in> set [''add'', ''addDir'', ''unlink'', ''unlinkDir''])"

definition handleFileChange ::
  "services \<Rightarrow> render_env \<Rightarrow> FileChangeEvent \<Rightarrow> page_state \<Rightarrow> page_state" where
  "handleFileChange sv env data s =
     (case notesPath env of
        None \<Rightarrow> s
      | Some np \<Rightarrow>
          if np = [] then s
          else if isStructuralEvent (eventType data) \<and> hasPendingOperations s
          then emit (LogDebug ''Skipping structural file event during pending operations:'') s
          else if eventType data = ''change''
          then (if activeFilePath env = Some (filePath data) then s
                else (case initWorkSpace sv np (sortType env) s of
                        (Inl e, s1) \<Rightarrow> emit (LogError ''Failed to handle file change:'') s1
                      | (Inr u, s1) \<Rightarrow> s1))
          else if eventType data \<in> set [''add'', ''addDir'', ''unlink'', ''unlinkDir'']
          then (let s1 = (if (eventType data = ''unlink'' \<or> eventType data = ''unlinkDir'')
                             \<and> activeFilePath env = Some (filePath data)
                          then dispatch_setActiveFilePath None s else s);
                    s2 = set_isSyncingTree True s1;
                    s3 = (case initWorkSpace sv np (sortType env) s2 of
                            (Inl e, s') \<Rightarrow> emit (LogError ''Failed to sync database:'') s'
                          | (Inr u, s') \<Rightarrow> s')
                in set_isSyncingTree False s3)
          else emit (LogDebug ''Unhandled file event type:'') s)"

text \<open>
  The effect that starts the watcher returns at once when there is no notes path or the
  tree is empty; otherwise it starts the watcher and, unless that rejects, registers
  \<open>handleFileChange\<close> as the listener. \<open>None\<close>: no listener is registered.
\<close>

definition startFileWatcher ::
  "services \<Rightarrow> render_env \<Rightarrow> (FileChangeEvent \<Rightarrow> page_state \<Rightarrow> page_state) option" where
  "startFileWatcher sv env =
     (case notesPath env of
        None \<Rightarrow> None
      | Some np \<Rightarrow>
          if np = [] \<or> length (notesTree env) = 0 then None
          else (case startFileWatcher_outcome sv np of
                  Some e \<Rightarrow> None
                | None \<Rightarrow> Some (handleFileChange sv env)))"


section \<open>Renaming a node\<close>

definition rename_operation ::
  "services \<Rightarrow> render_env \<Rightarrow> string \<Rightarrow> string \<Rightarrow> page_state \<Rightarrow> (error + NotesTreeNode) \<times> page_state" where
  "rename_operation sv env nodeId newName s =
     (case renameNode sv nodeId newName s of
        (Inl e, s1) \<Rightarrow> (Inl e, s1)
      | (Inr renamed, s1) \<Rightarrow>
          (case sortAllLevels sv (sortType env) s1 of
             (Inl e, s2) \<Rightarrow> (Inl e, s2)
           | (Inr u, s2) \<Rightarrow> (Inr renamed, s2)))"

definition update_active_path ::
  "render_env \<Rightarrow> string \<Rightarrow> NotesTreeNode \<Rightarrow> page_state \<Rightarrow> page_state" where
  "update_active_path env oldExternalPath renamedNode s =
     (if node_type renamedNode = FileNode \<and> activeFilePath env = Some oldExternalPath
      then dispatch_setActiveFilePath (Some (externalPath renamedNode)) s
      else (case activeFilePath env of
              None \<Rightarrow> s
            | Some active \<Rightarrow>
                if node_type renamedNode = FolderNode \<and> active \<noteq> []
                   \<and> prefix (oldExternalPath @ ''/'') active
                then dispatch_setActiveFilePath
                       (Some (externalPath renamedNode @ drop (length oldExternalPath) active)) s
                else s))"

definition handleRenameNode ::
  "services \<Rightarrow> render_env \<Rightarrow> string \<Rightarrow> string \<Rightarrow> page_state \<Rightarrow> page_state" where
  "handleRenameNode sv env nodeId newName s =
     (case getNotesTree sv s of
        (Inl e, s1) \<Rightarrow> emit (LogError ''Failed to rename node:'') s1
      | (Inr tree, s1) \<Rightarrow>
          (case findNodeById tree nodeId of
             None \<Rightarrow> s1
           | Some node \<Rightarrow>
               if node_name node = newName then s1
               else (case withOperation (''renameNode:'' @ nodeId @ '':'' @ newName)
                            (rename_operation sv env nodeId newName) s1 of
                       (Inl e, s2) \<Rightarrow> emit (LogError ''Failed to rename node:'') s2
                     | (Inr renamedNode, s2) \<Rightarrow>
                         (let s3 = update_active_path env (externalPath node) renamedNode s2
                          in if node_name renamedNode \<noteq> newName
                             then emit (ToastInfo newName (node_name renamedNode)) s3
                             else s3))))"


text \<open>
  How far a call of \<open>handleRenameNode\<close> gets, read off the answers of the services: the
  node is looked up and renamed only when the tree is fetched, the node is found and its
  name differs from the new one (\<open>rename_attempted\<close>); the rename has succeeded when
  both \<open>renameNode\<close> and the re-sort after it resolve (\<open>rename_result\<close>, the node found
  and the node as renamed).
\<close>

definition rename_attempted :: "services \<Rightarrow> string \<Rightarrow> string \<Rightarrow> NotesTreeNode option" where
  "rename_attempted sv nodeId newName =
     (case getNotesTree_outcome sv of
        Inl e \<Rightarrow> None
      | Inr tree \<Rightarrow>
          (case findNodeById tree nodeId of
             None \<Rightarrow> None
           | Some node \<Rightarrow> if node_name node = newName then None else Some node))"

definition rename_result ::
  "services \<Rightarrow> render_env \<Rightarrow> string \<Rightarrow> string \<Rightarrow> (NotesTreeNode \<times> NotesTreeNode) option" where
  "rename_result sv env nodeId newName =
     (case rename_attempted sv nodeId newName of
        None \<Rightarrow> None
      | Some node \<Rightarrow>
          (case renameNode_outcome sv nodeId newName of
             Inl e \<Rightarrow> None
           | Inr renamed \<Rightarrow>
               (case sortAllLevels_outcome sv (sortType env) of
                  Some e \<Rightarrow> None
                | None \<Rightarrow> Some (node, renamed))))"


section \<open>The slash-command suggestion handler\<close>

record KeyDownEvent =
  key :: string
  shiftKey :: bool

record onKeyDown_result =
  handled :: bool
  preventDefault_calls :: nat
  inserted :: "string list"

text \<open>
  Modelled from the spec: \<^verbatim>\<open>commandSuggestion.onKeyDown\<close> of
  \<^verbatim>\<open>src/renderer/src/components/RichEditor/command.ts\<close>, which is not among the sources;
  only its test \<^verbatim>\<open>__tests__/commandSuggestion.test.ts\<close> is. On Enter with Shift the
  handler prevents the default action of the event, inserts a line feed into the editor
  through one \<^verbatim>\<open>chain().focus().insertContent().run()\<close> and answers true; on any other
  key it does nothing and answers false. The result records the answer, how often
  \<^verbatim>\<open>preventDefault\<close> was called and the contents inserted, one per chain that was run.
\<close>

definition commandSuggestion_onKeyDown :: "KeyDownEvent \<Rightarrow> onKeyDown_result" where
  "commandSuggestion_onKeyDown ev =
     (if key ev = ''Enter'' \<and> shiftKey ev
      then \<lparr>handled = True, preventDefault_calls = 1, inserted = [[CHR 0x0A]]\<rparr>
      else \<lparr>handled = False, preventDefault_calls = 0, inserted = []\<rparr>)"


section \<open>Example inputs\<close>

definition example_state :: page_state where
  "example_state =
     \<lparr>store_activeFilePath = Some ''/notes/a.md'', isSyncingTree = False,
      pendingOperations = [], lastContent = [], lastFilePath = None,
      debouncedSave_timer = None, trace = []\<rparr>"

definition example_busy_state :: page_state where
  "example_busy_state = example_state\<lparr>pendingOperations := [''createNote:b'']\<rparr>"

definition example_file :: NotesTreeNode where
  "example_file = NotesTreeNode ''n1'' ''a'' FileNode ''/notes/a.md'' None"

definition example_folder :: NotesTreeNode where
  "example_folder =
     NotesTreeNode ''n2'' ''docs'' FolderNode ''/notes/docs''
       (Some [NotesTreeNode ''n3'' ''c'' FileNode ''/notes/docs/c.md'' None])"

definition example_tree :: "NotesTreeNode list" where
  "example_tree = [example_file, example_folder]"

definition example_env :: render_env where
  "example_env =
     \<lparr>notesPath = Some ''/notes'', sortType = ''sort_a2z'',
      activeFilePath = Some ''/notes/a.md'', currentContent = ''old'',
      notesTree = example_tree\<rparr>"

text \<open>Services that resolve every call, and services that reject every call.\<close>

definition resolving :: services where
  "resolving =
     \<lparr>initWorkSpace_outcome = (\<lambda>p st. None),
      file_write_outcome = (\<lambda>p c. None),
      startFileWatcher_outcome = (\<lambda>p. None),
      getNotesTree_outcome = Inr example_tree,
      renameNode_outcome = (\<lambda>nodeId newName.
         if nodeId = ''n1'' then Inr (NotesTreeNode ''n1'' newName FileNode (''/notes/'' @ newName @ ''.md'') None)
         else Inr (NotesTreeNode nodeId newName FolderNode (''/notes/'' @ newName) None)),
      sortAllLevels_outcome = (\<lambda>st. None)\<rparr>"

definition rejecting :: services where
  "rejecting =
     \<lparr>initWorkSpace_outcome = (\<lambda>p st. Some (Error ''EIO'')),
      file_write_outcome = (\<lambda>p c. Some (Error ''EIO'')),
      startFileWatcher_outcome = (\<lambda>p. None),
      getNotesTree_outcome = Inl (Error ''EIO''),
      renameNode_outcome = (\<lambda>nodeId newName. Inl (Error ''EIO'')),
      sortAllLevels_outcome = (\<lambda>st. Some (Error ''EIO''))\<rparr>"

text \<open>Services whose rename resolves and whose re-sort rejects.\<close>

definition sort_rejecting :: services where
  "sort_rejecting = resolving\<lparr>sortAllLevels_outcome := (\<lambda>st. Some (Error ''EIO''))\<rparr>"

definition example_add_event :: FileChangeEvent where
  "example_add_event = \<lparr>eventType = ''add'', filePath = ''/notes/new.md''\<rparr>"

definition example_unlink_event :: FileChangeEvent where
  "example_unlink_event = \<lparr>eventType = ''unlink'', filePath = ''/notes/a.md''\<rparr>"

definition example_unlink_other_event :: FileChangeEvent where
  "example_unlink_other_event = \<lparr>eventType = ''unlinkDir'', filePath = ''/notes/docs''\<rparr>"

definition example_change_event :: FileChangeEvent where
  "example_change_event = \<lparr>eventType = ''change'', filePath = ''/notes/b.md''\<rparr>"

definition example_docs_env :: render_env where
  "example_docs_env = example_env\<lparr>activeFilePath := Some ''/notes/docs/c.md''\<rparr>"

definition shift_enter :: KeyDownEvent where
  "shift_enter = \<lparr>key = ''Enter'', shiftKey = True\<rparr>"

definition plain_enter :: KeyDownEvent where
  "plain_enter = \<lparr>key = ''Enter'', shiftKey = False\<rparr>"

definition resolve_unit :: "page_state \<Rightarrow> (error + unit) \<times> page_state" where
  "resolve_unit s = (Inr (), s)"

definition reject_unit :: "page_state \<Rightarrow> (error + unit) \<times> page_state" where
  "reject_unit s = (Inl (Error ''failed''), s)"


section \<open>Properties\<close>

subsection \<open>Looking a node up\<close>

lemma find_append_first:
  "List.find P (xs @ ys) = (case List.find P xs of Some x \<Rightarrow> Some x | None \<Rightarrow> List.find P ys)"
  by (induction xs) simp_all

text \<open>
  Claim C9. For every forest of note nodes and every node id, \<open>findNodeById\<close> returns the
  first node with that id in depth-first preorder (a node before its children, siblings in
  list order), and it returns null exactly when no node of the forest, at any depth, has
  that id.
\<close>

theorem findNodeById_first_in_preorder:
  "findNodeById tree nodeId = List.find (\<lambda>n. node_id n = nodeId) (preorder tree)
   \<and> ((findNodeById tree nodeId = None) = (nodeId \<notin> node_id ` set (preorder tree)))"
proof -
  have first: "findNodeById tree nodeId = List.find (\<lambda>n. node_id n = nodeId) (preorder tree)"
    by (induction tree nodeId rule: findNodeById.induct)
       (simp_all add: find_append_first split: option.splits)
  have "(List.find (\<lambda>n. node_id n = nodeId) (preorder tree) = None)
        = (nodeId \<notin> node_id ` set (preorder tree))"
    by (auto simp: find_None_iff)
  with first show ?thesis by simp
qed

text \<open>The lookup on the example tree: a top-level node, a nested node, a missing id.\<close>

lemma findNodeById_examples:
  "findNodeById example_tree ''n2'' = Some example_folder"
  "findNodeById example_tree ''n3'' = Some (NotesTreeNode ''n3'' ''c'' FileNode ''/notes/docs/c.md'' None)"
  "findNodeById example_tree ''n9'' = None"
  by (simp_all add: example_tree_def example_file_def example_folder_def)


subsection \<open>The pending-operation guard\<close>

text \<open>
  Claim C4, as amended. For every operation id and every operation, \<open>withOperation\<close> runs
  the operation in a state in which the id is pending, returns what the operation returns
  (its value when it resolves, its error when it rejects), and in both cases ends with the
  id removed from the pending set. The call leaves the set as it found it when the id was
  not pending before the call and the operation itself leaves the set unchanged.
\<close>

theorem withOperation_guard:
  "operationId \<in> set (pendingOperations (addOperation operationId s))
   \<and> fst (withOperation operationId operation s) = fst (operation (addOperation operationId s))
   \<and> snd (withOperation operationId operation s)
       = removeOperation operationId (snd (operation (addOperation operationId s)))
   \<and> operationId \<notin> set (pendingOperations (snd (withOperation operationId operation s)))
   \<and> (operationId \<notin> set (pendingOperations s)
        \<and> pendingOperations (snd (operation (addOperation operationId s)))
            = pendingOperations (addOperation operationId s)
       \<longrightarrow> pendingOperations (snd (withOperation operationId operation s)) = pendingOperations s)"
  by (simp add: withOperation_def Let_def addOperation_def removeOperation_def emit_def
        set_add_def set_delete_def)

theorem withOperation_guard_witness:
  "pendingOperations (snd (withOperation ''createNote:a'' resolve_unit example_state))
     = pendingOperations example_state
   \<and> fst (withOperation ''createNote:a'' reject_unit example_state) = Inl (Error ''failed'')
   \<and> pendingOperations (snd (withOperation ''createNote:a'' reject_unit example_state)) = []"
  using withOperation_guard [of "''createNote:a''" example_state resolve_unit]
    withOperation_guard [of "''createNote:a''" example_state reject_unit]
  by (simp add: example_state_def resolve_unit_def reject_unit_def addOperation_def
        removeOperation_def emit_def set_add_def set_delete_def)

text \<open>
  The claim as written ends with "a completed call leaves the set as it found it". With
  the id already pending (a second \<^verbatim>\<open>createNote:b\<close> started while the first is still
  running), the call that completes removes the id the other call still relies on.
\<close>

theorem withOperation_already_pending:
  "fst (withOperation ''createNote:b'' resolve_unit example_busy_state) = Inr ()
   \<and> pendingOperations example_busy_state = [''createNote:b'']
   \<and> pendingOperations (snd (withOperation ''createNote:b'' resolve_unit example_busy_state)) = []"
  by (simp add: withOperation_def Let_def addOperation_def removeOperation_def emit_def
        set_add_def set_delete_def example_busy_state_def example_state_def resolve_unit_def)


subsection \<open>The file watcher\<close>

lemma startFileWatcher_Some:
  "startFileWatcher sv env = Some h \<Longrightarrow>
     h = handleFileChange sv env \<and> (\<exists>np. notesPath env = Some np \<and> np \<noteq> [])"
  by (auto simp: startFileWatcher_def split: option.splits if_splits)

lemma structural_event_result:
  assumes "notesPath env = Some np" "np \<noteq> []" "isStructuralEvent (eventType data)"
    "\<not> hasPendingOperations s"
  shows "handleFileChange sv env data s =
     s\<lparr>store_activeFilePath :=
          (if (eventType data = ''unlink'' \<or> eventType data = ''unlinkDir'')
              \<and> activeFilePath env = Some (filePath data)
           then None else store_activeFilePath s),
       isSyncingTree := False,
       trace := trace s
         @ (if (eventType data = ''unlink'' \<or> eventType data = ''unlinkDir'')
               \<and> activeFilePath env = Some (filePath data)
            then [DispatchSetActiveFilePath None] else [])
         @ [SetIsSyncingTree True, InitWorkSpace np (sortType env)]
         @ (case initWorkSpace_outcome sv np (sortType env) of
              Some e \<Rightarrow> [LogError ''Failed to sync database:''] | None \<Rightarrow> [])
         @ [SetIsSyncingTree False]\<rparr>"
proof -
  from assms(3) have nc: "eventType data \<noteq> ''change''"
    by (auto simp: isStructuralEvent_def)
  from assms(3) have mem: "eventType data \<in> set [''add'', ''addDir'', ''unlink'', ''unlinkDir'']"
    by (simp add: isStructuralEvent_def)
  show ?thesis
    using assms(1,2,4) nc mem
    by (cases "initWorkSpace_outcome sv np (sortType env)")
       (simp_all add: handleFileChange_def Let_def initWorkSpace_def outcome_def emit_def
          set_isSyncingTree_def dispatch_setActiveFilePath_def del: set_simps)
qed

lemma example_registered:
  "startFileWatcher resolving example_env = Some (handleFileChange resolving example_env)"
  "startFileWatcher rejecting example_env = Some (handleFileChange rejecting example_env)"
  by (simp_all add: startFileWatcher_def example_env_def example_tree_def resolving_def
        rejecting_def)

lemma example_idle: "\<not> hasPendingOperations example_state"
  by (simp add: hasPendingOperations_def example_state_def)

lemma example_notesPath: "notesPath example_env = Some ''/notes''"
  by (simp add: example_env_def)

text \<open>
  Claim C1, as amended. While at least one operation is pending, every structural
  file-watcher event (\<^verbatim>\<open>add\<close>, \<^verbatim>\<open>addDir\<close>, \<^verbatim>\<open>unlink\<close>, \<^verbatim>\<open>unlinkDir\<close>) is suppressed:
  \<open>handleFileChange\<close> leaves the store and the refs as they are, and calls neither
  \<open>initWorkSpace\<close> nor \<open>invalidateFileContent\<close> nor \<open>dispatch\<close>; all it does is log
  the skipped event.
\<close>

theorem handleFileChange_structural_suppressed:
  "isStructuralEvent (eventType data) \<Longrightarrow> hasPendingOperations s \<Longrightarrow>
     handleFileChange sv env data s =
       s\<lparr>trace := trace s @
           (if truthy (notesPath env)
            then [LogDebug ''Skipping structural file event during pending operations:'']
            else [])\<rparr>"
  by (simp add: handleFileChange_def truthy_def emit_def split: option.splits)

theorem handleFileChange_structural_suppressed_witness:
  "isStructuralEvent (eventType example_unlink_event) \<and> hasPendingOperations example_busy_state
   \<and> handleFileChange resolving example_env example_unlink_event example_busy_state
       = example_busy_state
           \<lparr>trace := [LogDebug ''Skipping structural file event during pending operations:'']\<rparr>"
  using handleFileChange_structural_suppressed
    [of example_unlink_event example_busy_state resolving example_env]
  by (simp add: isStructuralEvent_def hasPendingOperations_def example_busy_state_def
        example_state_def example_env_def example_unlink_event_def truthy_def)

text \<open>
  The claim as written suppresses every event. A \<^verbatim>\<open>change\<close> event on a file other than
  the active one is not structural, passes the guard and resyncs the workspace although an
  operation is pending.
\<close>

theorem handleFileChange_change_not_suppressed:
  "hasPendingOperations example_busy_state
   \<and> trace (handleFileChange resolving example_env example_change_event example_busy_state)
       = [InitWorkSpace ''/notes'' ''sort_a2z'']"
  by (simp add: handleFileChange_def isStructuralEvent_def hasPendingOperations_def
        example_busy_state_def example_state_def example_env_def example_change_event_def
        initWorkSpace_def outcome_def emit_def resolving_def)

text \<open>
  Claim C3. For every structural event that reaches a registered handler while no operation
  is pending, the handler sets the tree-syncing flag, calls \<open>initWorkSpace\<close> with the
  notes path and the sort type, and clears the flag afterwards; when the resync rejects,
  the error is logged between the call and the clearing of the flag, and the handler
  returns normally. The state in which \<open>initWorkSpace\<close> is called is the state the
  event arrived in (with the selection cleared first for an \<^verbatim>\<open>unlink\<close> of the active
  file, see C6) with the flag raised; the flag is still raised when the resync returns,
  and it is down when the handler returns.
\<close>

theorem handleFileChange_structural_resync:
  assumes "startFileWatcher sv env = Some h" and "notesPath env = Some np"
    and "isStructuralEvent (eventType data)" and "\<not> hasPendingOperations s"
  shows "set_isSyncingTree True
           (if (eventType data = ''unlink'' \<or> eventType data = ''unlinkDir'')
               \<and> activeFilePath env = Some (filePath data)
            then dispatch_setActiveFilePath None s else s)
         = s\<lparr>store_activeFilePath :=
               (if (eventType data = ''unlink'' \<or> eventType data = ''unlinkDir'')
                   \<and> activeFilePath env = Some (filePath data)
                then None else store_activeFilePath s),
              isSyncingTree := True,
              trace := trace s
                @ (if (eventType data = ''unlink'' \<or> eventType data = ''unlinkDir'')
                      \<and> activeFilePath env = Some (filePath data)
                   then [DispatchSetActiveFilePath None] else [])
                @ [SetIsSyncingTree True]\<rparr>
         \<and> h data s =
             set_isSyncingTree False
               (case initWorkSpace sv np (sortType env)
                       (set_isSyncingTree True
                          (if (eventType data = ''unlink'' \<or> eventType data = ''unlinkDir'')
                              \<and> activeFilePath env = Some (filePath data)
                           then dispatch_setActiveFilePath None s else s)) of
                  (Inl e, s') \<Rightarrow> emit (LogError ''Failed to sync database:'') s'
                | (Inr u, s') \<Rightarrow> s')
         \<and> isSyncingTree
             (snd (initWorkSpace sv np (sortType env)
                (set_isSyncingTree True
                   (if (eventType data = ''unlink'' \<or> eventType data = ''unlinkDir'')
                       \<and> activeFilePath env = Some (filePath data)
                    then dispatch_setActiveFilePath None s else s))))
         \<and> trace (h data s) = trace s
             @ (if (eventType data = ''unlink'' \<or> eventType data = ''unlinkDir'')
                   \<and> activeFilePath env = Some (filePath data)
                then [DispatchSetActiveFilePath None] else [])
             @ [SetIsSyncingTree True, InitWorkSpace np (sortType env)]
             @ (case initWorkSpace_outcome sv np (sortType env) of
                  Some e \<Rightarrow> [LogError ''Failed to sync database:''] | None \<Rightarrow> [])
             @ [SetIsSyncingTree False]
         \<and> isSyncingTree (h data s) = False"
proof -
  from startFileWatcher_Some [OF assms(1)] assms(2)
  have h: "h = handleFileChange sv env" and np: "np \<noteq> []" by auto
  from assms(3) have nc: "eventType data \<noteq> ''change''"
    by (auto simp: isStructuralEvent_def)
  from assms(3) have mem: "eventType data \<in> set [''add'', ''addDir'', ''unlink'', ''unlinkDir'']"
    by (simp add: isStructuralEvent_def)
  have raised: "set_isSyncingTree True
           (if (eventType data = ''unlink'' \<or> eventType data = ''unlinkDir'')
               \<and> activeFilePath env = Some (filePath data)
            then dispatch_setActiveFilePath None s else s)
         = s\<lparr>store_activeFilePath :=
               (if (eventType data = ''unlink'' \<or> eventType data = ''unlinkDir'')
                   \<and> activeFilePath env = Some (filePath data)
                then None else store_activeFilePath s),
              isSyncingTree := True,
              trace := trace s
                @ (if (eventType data = ''unlink'' \<or> eventType data = ''unlinkDir'')
                      \<and> activeFilePath env = Some (filePath data)
                   then [DispatchSetActiveFilePath None] else [])
                @ [SetIsSyncingTree True]\<rparr>"
    by (simp add: set_isSyncingTree_def dispatch_setActiveFilePath_def emit_def)
  have run: "handleFileChange sv env data s =
             set_isSyncingTree False
               (case initWorkSpace sv np (sortType env)
                       (set_isSyncingTree True
                          (if (eventType data = ''unlink'' \<or> eventType data = ''unlinkDir'')
                              \<and> activeFilePath env = Some (filePath data)
                           then dispatch_setActiveFilePath None s else s)) of
                  (Inl e, s') \<Rightarrow> emit (LogError ''Failed to sync database:'') s'
                | (Inr u, s') \<Rightarrow> s')"
    using assms(2,4) np nc mem
    by (simp add: handleFileChange_def Let_def del: set_simps)
  have during: "isSyncingTree
             (snd (initWorkSpace sv np (sortType env)
                (set_isSyncingTree True
                   (if (eventType data = ''unlink'' \<or> eventType data = ''unlinkDir'')
                       \<and> activeFilePath env = Some (filePath data)
                    then dispatch_setActiveFilePath None s else s))))"
    by (simp add: initWorkSpace_def emit_def set_isSyncingTree_def)
  have fin: "trace (handleFileChange sv env data s) = trace s
             @ (if (eventType data = ''unlink'' \<or> eventType data = ''unlinkDir'')
                   \<and> activeFilePath env = Some (filePath data)
                then [DispatchSetActiveFilePath None] else [])
             @ [SetIsSyncingTree True, InitWorkSpace np (sortType env)]
             @ (case initWorkSpace_outcome sv np (sortType env) of
                  Some e \<Rightarrow> [LogError ''Failed to sync database:''] | None \<Rightarrow> [])
             @ [SetIsSyncingTree False]
         \<and> isSyncingTree (handleFileChange sv env data s) = False"
    unfolding structural_event_result [OF assms(2) np assms(3,4)] by simp
  from raised run during fin show ?thesis unfolding h by blast
qed

theorem handleFileChange_structural_resync_witness:
  "set_isSyncingTree True example_state = example_state
       \<lparr>isSyncingTree := True, trace := [SetIsSyncingTree True]\<rparr>
   \<and> isSyncingTree
       (snd (initWorkSpace rejecting ''/notes'' ''sort_a2z'' (set_isSyncingTree True example_state)))
   \<and> trace (handleFileChange resolving example_env example_add_event example_state)
     = [SetIsSyncingTree True, InitWorkSpace ''/notes'' ''sort_a2z'', SetIsSyncingTree False]
   \<and> trace (handleFileChange rejecting example_env example_add_event example_state)
     = [SetIsSyncingTree True, InitWorkSpace ''/notes'' ''sort_a2z'',
        LogError ''Failed to sync database:'', SetIsSyncingTree False]
   \<and> isSyncingTree (handleFileChange rejecting example_env example_add_event example_state) = False"
proof -
  have ev: "isStructuralEvent (eventType example_add_event)"
    by (simp add: isStructuralEvent_def example_add_event_def)
  have empty: "trace example_state = []"
    by (simp add: example_state_def)
  have sort: "sortType example_env = ''sort_a2z''"
    by (simp add: example_env_def)
  note resolved =
    handleFileChange_structural_resync [OF example_registered(1) example_notesPath ev example_idle]
  note rejected =
    handleFileChange_structural_resync [OF example_registered(2) example_notesPath ev example_idle]
  from resolved [THEN conjunct2, THEN conjunct2, THEN conjunct2]
  have 1: "trace (handleFileChange resolving example_env example_add_event example_state)
     = [SetIsSyncingTree True, InitWorkSpace ''/notes'' ''sort_a2z'', SetIsSyncingTree False]"
    by (simp add: example_add_event_def empty sort resolving_def)
  from rejected [THEN conjunct2, THEN conjunct2, THEN conjunct2]
  have 2: "trace (handleFileChange rejecting example_env example_add_event example_state)
     = [SetIsSyncingTree True, InitWorkSpace ''/notes'' ''sort_a2z'',
        LogError ''Failed to sync database:'', SetIsSyncingTree False]"
    and 3: "isSyncingTree (handleFileChange rejecting example_env example_add_event example_state) = False"
    by (simp_all add: example_add_event_def empty sort rejecting_def)
  from rejected [THEN conjunct1]
  have 4: "set_isSyncingTree True example_state = example_state
       \<lparr>isSyncingTree := True, trace := [SetIsSyncingTree True]\<rparr>"
    by (simp add: example_add_event_def empty)
  from rejected [THEN conjunct2, THEN conjunct2, THEN conjunct1]
  have 5: "isSyncingTree
       (snd (initWorkSpace rejecting ''/notes'' ''sort_a2z'' (set_isSyncingTree True example_state)))"
    by (simp add: example_add_event_def sort)
  from 1 2 3 4 5 show ?thesis by simp
qed

text \<open>
  Claim C6. For every \<^verbatim>\<open>unlink\<close> or \<^verbatim>\<open>unlinkDir\<close> event that reaches a registered
  handler while no operation is pending: when the path of the event is the active file
  path, the active file path in the store is cleared, and the dispatch that clears it comes
  before the call of \<open>initWorkSpace\<close>; when it is another path, the active file path in
  the store is unchanged and nothing is dispatched.
\<close>

theorem handleFileChange_unlink_active:
  assumes "startFileWatcher sv env = Some h" and "notesPath env = Some np"
    and "eventType data = ''unlink'' \<or> eventType data = ''unlinkDir''"
    and "\<not> hasPendingOperations s"
  shows "(if activeFilePath env = Some (filePath data)
          then store_activeFilePath (h data s) = None
             \<and> (\<exists>after. trace (h data s)
                   = trace s @ [DispatchSetActiveFilePath None, SetIsSyncingTree True,
                                InitWorkSpace np (sortType env)] @ after
                   \<and> after \<in> {[SetIsSyncingTree False],
                        [LogError ''Failed to sync database:'', SetIsSyncingTree False]})
          else store_activeFilePath (h data s) = store_activeFilePath s
             \<and> (\<exists>after. trace (h data s)
                   = trace s @ [SetIsSyncingTree True, InitWorkSpace np (sortType env)] @ after
                   \<and> after \<in> {[SetIsSyncingTree False],
                        [LogError ''Failed to sync database:'', SetIsSyncingTree False]}))"
proof -
  from startFileWatcher_Some [OF assms(1)] assms(2)
  have h: "h = handleFileChange sv env" and np: "np \<noteq> []" by auto
  from assms(3) have st: "isStructuralEvent (eventType data)"
    by (auto simp: isStructuralEvent_def)
  show ?thesis
    unfolding h structural_event_result [OF assms(2) np st assms(4)]
    using assms(3) by (cases "initWorkSpace_outcome sv np (sortType env)") auto
qed

theorem handleFileChange_unlink_active_witness:
  "store_activeFilePath (handleFileChange resolving example_env example_unlink_event example_state)
     = None
   \<and> store_activeFilePath
       (handleFileChange resolving example_env example_unlink_other_event example_state)
     = Some ''/notes/a.md''"
proof -
  have e1: "eventType example_unlink_event = ''unlink''
      \<or> eventType example_unlink_event = ''unlinkDir''"
    by (simp add: example_unlink_event_def)
  have e2: "eventType example_unlink_other_event = ''unlink''
      \<or> eventType example_unlink_other_event = ''unlinkDir''"
    by (simp add: example_unlink_other_event_def)
  from handleFileChange_unlink_active [OF example_registered(1) example_notesPath e1 example_idle]
  have 1: "store_activeFilePath
      (handleFileChange resolving example_env example_unlink_event example_state) = None"
    by (simp add: example_unlink_event_def example_env_def)
  from handleFileChange_unlink_active [OF example_registered(1) example_notesPath e2 example_idle]
  have 2: "store_activeFilePath
      (handleFileChange resolving example_env example_unlink_other_event example_state)
       = Some ''/notes/a.md''"
    by (simp add: example_unlink_other_event_def example_env_def example_state_def)
  from 1 2 show ?thesis by simp
qed


subsection \<open>Saving\<close>

lemma save_skips:
  "\<not> truthy (js_or fp (activeFilePath env)) \<or> trim content = trim (currentContent env)
   \<Longrightarrow> saveCurrentNote sv env content fp s = s"
  by (simp add: saveCurrentNote_def Let_def)

lemma save_writes:
  "js_or fp (activeFilePath env) = Some tp \<Longrightarrow> tp \<noteq> [] \<Longrightarrow>
   trim content \<noteq> trim (currentContent env) \<Longrightarrow>
   saveCurrentNote sv env content fp s =
     s\<lparr>trace := trace s @ [FileWrite tp content,
         (case file_write_outcome sv tp content of
            None \<Rightarrow> InvalidateFileContent tp
          | Some e \<Rightarrow> LogError ''Failed to save note:'')]\<rparr>"
  by (cases "file_write_outcome sv tp content")
     (simp_all add: saveCurrentNote_def Let_def truthy_def file_write_def outcome_def emit_def
        invalidateFileContent_def)

text \<open>
  Claim C2, as amended. For every save request, \<open>saveCurrentNote\<close> does nothing (no
  write, no invalidation) when there is no target path (the \<^verbatim>\<open>filePath\<close> argument and
  the active file path are each undefined or empty) or when the trimmed new content equals
  the trimmed cached content. Otherwise it calls the file write with the content on the
  target path and then, when the write has succeeded, invalidates the cached content of that
  path; when the write fails, the error is logged and nothing is invalidated. An edit
  writes nothing itself: it sets the debounce timer to 800 ms after the edit, with the
  content and the active file path of the edit; before that time the timer does nothing,
  from that time on it runs the save once.
\<close>

theorem saveCurrentNote_write_or_skip:
  "(\<not> truthy (js_or fp (activeFilePath env)) \<or> trim content = trim (currentContent env)
      \<longrightarrow> saveCurrentNote sv env content fp s = s)
   \<and> (js_or fp (activeFilePath env) = Some tp \<and> tp \<noteq> []
        \<and> trim content \<noteq> trim (currentContent env)
      \<longrightarrow> trace (saveCurrentNote sv env content fp s)
           = trace s @ [FileWrite tp content,
               (case file_write_outcome sv tp content of
                  None \<Rightarrow> InvalidateFileContent tp
                | Some e \<Rightarrow> LogError ''Failed to save note:'')])
   \<and> trace (handleMarkdownChange env now newMarkdown s) = trace s
   \<and> debouncedSave_timer (handleMarkdownChange env now newMarkdown s)
       = Some (newMarkdown, activeFilePath env, now + 800)
   \<and> (t < now + 800 \<longrightarrow>
        debouncedSave_elapse sv env t (handleMarkdownChange env now newMarkdown s)
          = handleMarkdownChange env now newMarkdown s)
   \<and> (now + 800 \<le> t \<longrightarrow>
        debouncedSave_elapse sv env t (handleMarkdownChange env now newMarkdown s)
          = saveCurrentNote sv env newMarkdown (activeFilePath env)
              ((handleMarkdownChange env now newMarkdown s)\<lparr>debouncedSave_timer := None\<rparr>))"
  using save_skips [of fp env content sv s]
    save_writes [of fp env tp content sv s]
  by (simp add: handleMarkdownChange_def debouncedSave_def debouncedSave_elapse_def)

theorem saveCurrentNote_write_or_skip_witness:
  "saveCurrentNote resolving example_env '' old  '' None example_state = example_state
   \<and> trace (saveCurrentNote resolving example_env ''new'' None example_state)
       = [FileWrite ''/notes/a.md'' ''new'', InvalidateFileContent ''/notes/a.md'']
   \<and> debouncedSave_elapse resolving example_env 799
         (handleMarkdownChange example_env 0 ''new'' example_state)
       = handleMarkdownChange example_env 0  ''new'' example_state"
proof -
  have target: "js_or None (activeFilePath example_env) = Some ''/notes/a.md''"
    by (simp add: js_or_def truthy_def example_env_def)
  have same: "trim '' old  '' = trim (currentContent example_env)"
    by (simp add: trim_def isWhiteSpace_def example_env_def)
  have differs: "trim ''new'' \<noteq> trim (currentContent example_env)"
    by (simp add: trim_def isWhiteSpace_def example_env_def)
  have resolves: "file_write_outcome resolving ''/notes/a.md'' ''new'' = None"
    by (simp add: resolving_def)
  have empty: "trace example_state = []"
    by (simp add: example_state_def)
  from saveCurrentNote_write_or_skip
    [of None example_env "'' old  ''" resolving example_state "''/notes/a.md''" 0 "''new''" 799]
    same
  have 1: "saveCurrentNote resolving example_env '' old  '' None example_state = example_state"
    and 3: "debouncedSave_elapse resolving example_env 799
         (handleMarkdownChange example_env 0 ''new'' example_state)
       = handleMarkdownChange example_env 0  ''new'' example_state"
    by simp_all
  from saveCurrentNote_write_or_skip
    [of None example_env "''new''" resolving example_state "''/notes/a.md''" 0 "''new''" 799]
    target differs resolves empty
  have 2: "trace (saveCurrentNote resolving example_env ''new'' None example_state)
       = [FileWrite ''/notes/a.md'' ''new'', InvalidateFileContent ''/notes/a.md'']"
    by simp
  from 1 2 3 show ?thesis by simp
qed

text \<open>
  The claim as written has the cache invalidated whenever there is a target path and the
  content differs. When the write rejects, the save logs the error and invalidates
  nothing.
\<close>

theorem saveCurrentNote_failed_write_keeps_cache:
  "js_or (Some ''/notes/a.md'') (activeFilePath example_env) = Some ''/notes/a.md''
   \<and> trim ''new'' \<noteq> trim (currentContent example_env)
   \<and> trace (saveCurrentNote rejecting example_env ''new'' (Some ''/notes/a.md'') example_state)
       = [FileWrite ''/notes/a.md'' ''new'', LogError ''Failed to save note:'']"
  by (simp add: saveCurrentNote_def Let_def truthy_def js_or_def file_write_def outcome_def
        emit_def invalidateFileContent_def example_env_def example_state_def rejecting_def
        trim_def isWhiteSpace_def)


subsection \<open>Renaming a node\<close>

lemma store_emit [simp]: "store_activeFilePath (emit e s) = store_activeFilePath s"
  by (simp add: emit_def)

lemma trace_emit [simp]: "trace (emit e s) = trace s @ [e]"
  by (simp add: emit_def)

lemma store_addOperation [simp]:
  "store_activeFilePath (addOperation i s) = store_activeFilePath s"
  by (simp add: addOperation_def)

lemma store_removeOperation [simp]:
  "store_activeFilePath (removeOperation i s) = store_activeFilePath s"
  by (simp add: removeOperation_def)

lemma trace_addOperation [simp]:
  "trace (addOperation i s) = trace s @ [LogDebug ''Operation started:'']"
  by (simp add: addOperation_def)

lemma trace_removeOperation [simp]:
  "trace (removeOperation i s) = trace s @ [LogDebug ''Operation completed:'']"
  by (simp add: removeOperation_def)

lemma store_update_active_path:
  "store_activeFilePath (update_active_path env old renamed s) =
     (if node_type renamed = FileNode \<and> activeFilePath env = Some old
      then Some (externalPath renamed)
      else (case activeFilePath env of
              None \<Rightarrow> store_activeFilePath s
            | Some active \<Rightarrow>
                if node_type renamed = FolderNode \<and> prefix (old @ ''/'') active
                then Some (externalPath renamed @ drop (length old) active)
                else store_activeFilePath s))"
  by (auto simp: update_active_path_def dispatch_setActiveFilePath_def split: option.splits)

lemma trace_update_active_path:
  "\<exists>d. trace (update_active_path env old renamed s) = trace s @ d
       \<and> RenameNode nodeId newName \<notin> set d"
  by (auto simp: update_active_path_def dispatch_setActiveFilePath_def split: option.splits)

lemma rename_operation_eq:
  "rename_operation sv env nodeId newName s =
     (case renameNode_outcome sv nodeId newName of
        Inl e \<Rightarrow> (Inl e, emit (RenameNode nodeId newName) s)
      | Inr renamed \<Rightarrow>
          (case sortAllLevels_outcome sv (sortType env) of
             Some e \<Rightarrow> (Inl e, emit (SortAllLevels (sortType env)) (emit (RenameNode nodeId newName) s))
           | None \<Rightarrow> (Inr renamed, emit (SortAllLevels (sortType env)) (emit (RenameNode nodeId newName) s))))"
  by (simp add: rename_operation_def renameNode_def sortAllLevels_def outcome_def
        split: sum.splits option.splits)

lemma handleRenameNode_not_attempted:
  assumes "rename_attempted sv nodeId newName = None"
  shows "handleRenameNode sv env nodeId newName s =
     (case getNotesTree_outcome sv of
        Inl e \<Rightarrow> emit (LogError ''Failed to rename node:'') (emit GetNotesTree s)
      | Inr tree \<Rightarrow> emit GetNotesTree s)"
  using assms
  by (simp add: handleRenameNode_def rename_attempted_def getNotesTree_def
        split: sum.splits option.splits if_splits)

lemma handleRenameNode_failed:
  assumes "rename_attempted sv nodeId newName = Some node"
    and "rename_result sv env nodeId newName = None"
  shows "handleRenameNode sv env nodeId newName s =
     emit (LogError ''Failed to rename node:'')
       (removeOperation (''renameNode:'' @ nodeId @ '':'' @ newName)
         (snd (rename_operation sv env nodeId newName
           (addOperation (''renameNode:'' @ nodeId @ '':'' @ newName) (emit GetNotesTree s)))))"
proof -
  from assms(1) obtain tree where t: "getNotesTree_outcome sv = Inr tree"
    and f: "findNodeById tree nodeId = Some node" and n: "node_name node \<noteq> newName"
    by (auto simp: rename_attempted_def split: sum.splits option.splits if_splits)
  from assms have "fst (rename_operation sv env nodeId newName
           (addOperation (''renameNode:'' @ nodeId @ '':'' @ newName) (emit GetNotesTree s)))
       = Inl (case renameNode_outcome sv nodeId newName of Inl e \<Rightarrow> e
              | Inr r \<Rightarrow> (case sortAllLevels_outcome sv (sortType env) of
                           Some e \<Rightarrow> e | None \<Rightarrow> Error []))"
    by (simp add: rename_operation_eq rename_result_def split: sum.splits option.splits)
  then show ?thesis
    by (simp add: handleRenameNode_def getNotesTree_def t f n withOperation_def Let_def)
qed

lemma handleRenameNode_succeeded:
  assumes "rename_result sv env nodeId newName = Some (node, renamed)"
  shows "handleRenameNode sv env nodeId newName s =
     (let s3 = update_active_path env (externalPath node) renamed
                 (removeOperation (''renameNode:'' @ nodeId @ '':'' @ newName)
                   (emit (SortAllLevels (sortType env)) (emit (RenameNode nodeId newName)
                     (addOperation (''renameNode:'' @ nodeId @ '':'' @ newName)
                       (emit GetNotesTree s)))))
      in if node_name renamed \<noteq> newName
         then emit (ToastInfo newName (node_name renamed)) s3 else s3)"
proof -
  from assms obtain tree where t: "getNotesTree_outcome sv = Inr tree"
    and f: "findNodeById tree nodeId = Some node" and n: "node_name node \<noteq> newName"
    and r: "renameNode_outcome sv nodeId newName = Inr renamed"
    and so: "sortAllLevels_outcome sv (sortType env) = None"
    by (auto simp: rename_result_def rename_attempted_def
          split: sum.splits option.splits if_splits)
  show ?thesis
    by (simp add: handleRenameNode_def getNotesTree_def t f n withOperation_def Let_def
          rename_operation_eq r so)
qed

text \<open>
  Claim C7, as amended. \<open>handleRenameNode\<close> calls \<open>renameNode\<close> exactly when the node
  exists in the fetched tree and its name differs from the new name. When the rename and
  the re-sort that follows it in the same operation (\<open>sortAllLevels\<close>) both resolve:
  if the renamed node is a file and its old external path is the active file path, the
  active file path in the store becomes the new external path of the node; if the renamed
  node is a folder and the active file path is the old folder path, a slash and a rest, it
  becomes the new folder path, a slash and the same rest. In every other case the active
  file path in the store is unchanged: a rename that was not attempted, a rename that
  rejected, and a rename that resolved but whose re-sort rejected.
\<close>

theorem handleRenameNode_active_path:
  "(\<exists>new. trace (handleRenameNode sv env nodeId newName s) = trace s @ new
       \<and> (RenameNode nodeId newName \<in> set new) = (rename_attempted sv nodeId newName \<noteq> None))
   \<and> (rename_result sv env nodeId newName = None \<longrightarrow>
        store_activeFilePath (handleRenameNode sv env nodeId newName s) = store_activeFilePath s)
   \<and> (rename_result sv env nodeId newName = Some (node, renamed) \<longrightarrow>
        (node_type renamed = FileNode \<and> activeFilePath env = Some (externalPath node) \<longrightarrow>
           store_activeFilePath (handleRenameNode sv env nodeId newName s)
             = Some (externalPath renamed))
      \<and> (node_type renamed = FolderNode
           \<and> activeFilePath env = Some (externalPath node @ ''/'' @ rel) \<longrightarrow>
           store_activeFilePath (handleRenameNode sv env nodeId newName s)
             = Some (externalPath renamed @ ''/'' @ rel))
      \<and> (\<not> (node_type renamed = FileNode \<and> activeFilePath env = Some (externalPath node))
           \<and> \<not> (node_type renamed = FolderNode
                 \<and> (\<exists>r. activeFilePath env = Some (externalPath node @ ''/'' @ r))) \<longrightarrow>
           store_activeFilePath (handleRenameNode sv env nodeId newName s)
             = store_activeFilePath s))"
proof (cases "rename_result sv env nodeId newName")
  case None
  note nores = this
  show ?thesis
  proof (cases "rename_attempted sv nodeId newName")
    case None
    then show ?thesis
      using nores
      by (simp add: handleRenameNode_not_attempted split: sum.splits)
  next
    case (Some found)
    then show ?thesis
      using nores
      by (simp add: handleRenameNode_failed [OF Some nores] rename_operation_eq
            split: sum.splits option.splits)
  qed
next
  case (Some p)
  obtain found renamed' where p: "p = (found, renamed')" by (cases p)
  from Some p have res: "rename_result sv env nodeId newName = Some (found, renamed')" by simp
  then have att: "rename_attempted sv nodeId newName \<noteq> None"
    by (auto simp: rename_result_def split: option.splits)
  obtain d where d: "trace (update_active_path env (externalPath found) renamed'
                 (removeOperation (''renameNode:'' @ nodeId @ '':'' @ newName)
                   (emit (SortAllLevels (sortType env)) (emit (RenameNode nodeId newName)
                     (addOperation (''renameNode:'' @ nodeId @ '':'' @ newName)
                       (emit GetNotesTree s))))))
            = trace (removeOperation (''renameNode:'' @ nodeId @ '':'' @ newName)
                   (emit (SortAllLevels (sortType env)) (emit (RenameNode nodeId newName)
                     (addOperation (''renameNode:'' @ nodeId @ '':'' @ newName)
                       (emit GetNotesTree s))))) @ d"
    using trace_update_active_path by blast
  have tr: "\<exists>new. trace (handleRenameNode sv env nodeId newName s) = trace s @ new
       \<and> (RenameNode nodeId newName \<in> set new) = (rename_attempted sv nodeId newName \<noteq> None)"
    using att d by (simp add: handleRenameNode_succeeded [OF res] Let_def)
  have st: "store_activeFilePath (handleRenameNode sv env nodeId newName s)
      = store_activeFilePath (update_active_path env (externalPath found) renamed' s)"
    by (simp add: handleRenameNode_succeeded [OF res] Let_def store_update_active_path
          split: option.splits)
  have pre: "prefix (old @ ''/'') a = (\<exists>r. a = old @ ''/'' @ r)" for a old :: string
    by (auto simp: prefix_def)
  show ?thesis
    using tr res
    by (auto simp: st store_update_active_path pre split: option.splits)
qed

theorem handleRenameNode_active_path_witness:
  "store_activeFilePath (handleRenameNode resolving example_env ''n1'' ''b'' example_state)
     = Some ''/notes/b.md''
   \<and> store_activeFilePath
       (handleRenameNode resolving example_docs_env ''n2'' ''papers'' example_state)
     = Some ''/notes/papers/c.md''
   \<and> store_activeFilePath (handleRenameNode resolving example_env ''n1'' ''a'' example_state)
     = store_activeFilePath example_state
   \<and> store_activeFilePath (handleRenameNode rejecting example_env ''n1'' ''b'' example_state)
     = store_activeFilePath example_state"
proof -
  have r1: "rename_result resolving example_env ''n1'' ''b''
      = Some (example_file, NotesTreeNode ''n1'' ''b'' FileNode ''/notes/b.md'' None)"
    by (simp add: rename_result_def rename_attempted_def resolving_def example_tree_def
          example_file_def example_folder_def example_env_def)
  have r2: "rename_result resolving example_docs_env ''n2'' ''papers''
      = Some (example_folder, NotesTreeNode ''n2'' ''papers'' FolderNode ''/notes/papers'' None)"
    by (simp add: rename_result_def rename_attempted_def resolving_def example_tree_def
          example_file_def example_folder_def example_env_def example_docs_env_def)
  have r3: "rename_result resolving example_env ''n1'' ''a'' = None"
    by (simp add: rename_result_def rename_attempted_def resolving_def example_tree_def
          example_file_def example_folder_def example_env_def)
  have r4: "rename_result rejecting example_env ''n1'' ''b'' = None"
    by (simp add: rename_result_def rename_attempted_def rejecting_def)
  from handleRenameNode_active_path [of resolving example_env "''n1''" "''b''" example_state
      example_file "NotesTreeNode ''n1'' ''b'' FileNode ''/notes/b.md'' None" "[]"] r1
  have 1: "store_activeFilePath (handleRenameNode resolving example_env ''n1'' ''b'' example_state)
     = Some ''/notes/b.md''"
    by (simp add: example_env_def example_file_def)
  from handleRenameNode_active_path [of resolving example_docs_env "''n2''" "''papers''"
      example_state example_folder
      "NotesTreeNode ''n2'' ''papers'' FolderNode ''/notes/papers'' None" "''c.md''"] r2
  have 2: "store_activeFilePath
       (handleRenameNode resolving example_docs_env ''n2'' ''papers'' example_state)
     = Some ''/notes/papers/c.md''"
    by (simp add: example_env_def example_docs_env_def example_folder_def)
  from handleRenameNode_active_path [of resolving example_env "''n1''" "''a''" example_state] r3
  have 3: "store_activeFilePath (handleRenameNode resolving example_env ''n1'' ''a'' example_state)
     = store_activeFilePath example_state"
    by simp
  from handleRenameNode_active_path [of rejecting example_env "''n1''" "''b''" example_state] r4
  have 4: "store_activeFilePath (handleRenameNode rejecting example_env ''n1'' ''b'' example_state)
     = store_activeFilePath example_state"
    by simp
  from 1 2 3 4 show ?thesis by simp
qed


text \<open>
  The claim as written updates the active file path after every successful rename. When
  \<open>renameNode\<close> resolves and the re-sort after it rejects, the operation rejects as a
  whole: the active file has been renamed, and the store keeps its old path.
\<close>

theorem handleRenameNode_resort_rejects:
  "findNodeById example_tree ''n1'' = Some example_file
   \<and> node_name example_file \<noteq> ''b''
   \<and> renameNode_outcome sort_rejecting ''n1'' ''b''
       = Inr (NotesTreeNode ''n1'' ''b'' FileNode ''/notes/b.md'' None)
   \<and> activeFilePath example_env = Some (externalPath example_file)
   \<and> RenameNode ''n1'' ''b''
       \<in> set (trace (handleRenameNode sort_rejecting example_env ''n1'' ''b'' example_state))
   \<and> store_activeFilePath (handleRenameNode sort_rejecting example_env ''n1'' ''b'' example_state)
       = Some ''/notes/a.md''"
proof -
  have f: "findNodeById example_tree ''n1'' = Some example_file"
    by (simp add: example_tree_def example_file_def)
  have a: "rename_attempted sort_rejecting ''n1'' ''b'' = Some example_file"
    by (simp add: rename_attempted_def sort_rejecting_def resolving_def f)
       (simp add: example_file_def)
  have r: "rename_result sort_rejecting example_env ''n1'' ''b'' = None"
    by (simp add: rename_result_def a) (simp add: sort_rejecting_def resolving_def)
  have o: "renameNode_outcome sort_rejecting ''n1'' ''b''
       = Inr (NotesTreeNode ''n1'' ''b'' FileNode ''/notes/b.md'' None)"
    by (simp add: sort_rejecting_def resolving_def)
  have t: "RenameNode ''n1'' ''b''
       \<in> set (trace (handleRenameNode sort_rejecting example_env ''n1'' ''b'' example_state))"
    by (simp add: handleRenameNode_failed [OF a r] rename_operation_eq o)
       (simp add: sort_rejecting_def resolving_def)
  have st: "store_activeFilePath
        (handleRenameNode sort_rejecting example_env ''n1'' ''b'' example_state)
       = Some ''/notes/a.md''"
    by (simp add: handleRenameNode_failed [OF a r] rename_operation_eq o)
       (simp add: sort_rejecting_def resolving_def example_state_def)
  from f o t st show ?thesis by (simp add: example_env_def example_file_def)
qed


subsection \<open>The slash-command suggestion handler\<close>

text \<open>
  Claim C8. For every keydown event given to the slash-command suggestion handler: on
  Enter with Shift, the handler prevents the default action of the event once, inserts
  exactly a line feed into the editor through one chain, and returns true; on any other
  key, Enter without Shift included, it returns false, prevents nothing and runs no chain.
\<close>

theorem commandSuggestion_onKeyDown_shift_enter:
  "(key ev = ''Enter'' \<and> shiftKey ev \<longrightarrow>
      handled (commandSuggestion_onKeyDown ev)
      \<and> preventDefault_calls (commandSuggestion_onKeyDown ev) = 1
      \<and> inserted (commandSuggestion_onKeyDown ev) = [[CHR 0x0A]])
   \<and> (\<not> (key ev = ''Enter'' \<and> shiftKey ev) \<longrightarrow>
      \<not> handled (commandSuggestion_onKeyDown ev)
      \<and> preventDefault_calls (commandSuggestion_onKeyDown ev) = 0
      \<and> inserted (commandSuggestion_onKeyDown ev) = [])"
  by (simp add: commandSuggestion_onKeyDown_def)

theorem commandSuggestion_onKeyDown_shift_enter_witness:
  "handled (commandSuggestion_onKeyDown shift_enter)
   \<and> preventDefault_calls (commandSuggestion_onKeyDown shift_enter) = 1
   \<and> inserted (commandSuggestion_onKeyDown shift_enter) = [[CHR 0x0A]]
   \<and> \<not> handled (commandSuggestion_onKeyDown plain_enter)
   \<and> preventDefault_calls (commandSuggestion_onKeyDown plain_enter) = 0
   \<and> inserted (commandSuggestion_onKeyDown plain_enter) = []"
  using commandSuggestion_onKeyDown_shift_enter [of shift_enter]
    commandSuggestion_onKeyDown_shift_enter [of plain_enter]
  by (simp add: shift_enter_def plain_enter_def)

end
